theory Spec2Isabelle
  imports Complex_Main
begin

section \<open>Strings and numbers of the worker\<close>

text \<open>
  A JavaScript string is a sequence of UTF-16 code units; \<open>charCodeAt\<close> reads one of
  them. A code unit is a natural number here (below \<open>0x10000\<close> in every string the
  runtime can build). ASCII literals of the source are written \<open>js ''...''\<close>.

  JavaScript numbers are IEEE doubles. All numbers of the decoder are integers, on which
  the doubles are exact below \<open>2 ^ 53\<close>; they are integers here. Where the source leaves
  the integers (\<open>Infinity\<close> for an invalid digit, \<open>-Infinity\<close> from a division by
  zero, the 32-bit operator \<open>>>\<close>) the model writes the case out.
\<close>

type_synonym jsstring = "nat list"

abbreviation (input) js :: "string \<Rightarrow> jsstring" where
  "js s \<equiv> map of_char s"

text \<open>\<open>String.prototype.startsWith\<close>.\<close>

definition startsWith :: "jsstring \<Rightarrow> jsstring \<Rightarrow> bool" where
  "startsWith str p = (take (length p) str = p)"

text \<open>\<open>String.prototype.lastIndexOf\<close> for a one-unit search string: the greatest index
  holding the unit, \<open>-1\<close> when there is none.\<close>

fun lastIndexOf :: "jsstring \<Rightarrow> nat \<Rightarrow> int" where
  "lastIndexOf [] d = -1"
| "lastIndexOf (c # cs) d =
     (let r = lastIndexOf cs d in
      if 0 \<le> r then r + 1 else if c = d then 0 else -1)"

text \<open>\<open>String.fromCodePoint\<close>: a RangeError (\<open>None\<close>) above \<open>0x10FFFF\<close>, one code
  unit up to \<open>0xFFFF\<close>, a surrogate pair above. The decoder only calls it on integers
  from 128 on.\<close>

definition fromCodePoint :: "int \<Rightarrow> jsstring option" where
  "fromCodePoint n =
     (if n < 0 \<or> 0x10FFFF < n then None
      else if n \<le> 0xFFFF then Some [nat n]
      else Some [nat (0xD800 + (n - 0x10000) div 0x400),
                 nat (0xDC00 + (n - 0x10000) mod 0x400)])"

text \<open>\<open>Array.prototype.splice(i, 0, x)\<close> with \<open>0 \<le> i \<le> length\<close>: insertion before index \<open>i\<close>.\<close>

definition splice_in :: "nat \<Rightarrow> 'a \<Rightarrow> 'a list \<Rightarrow> 'a list" where
  "splice_in i x xs = take i xs @ x # drop i xs"

section \<open>Configuration\<close>

definition BASEPATH :: jsstring where
  "BASEPATH = js ''/avatar/''"

definition DEFAULTS_size :: int where
  "DEFAULTS_size = 60"

definition DEFAULTS_text :: jsstring where
  "DEFAULTS_text = js ''A''"

definition DEFAULTS_maxTextLength :: int where
  "DEFAULTS_maxTextLength = 2"

definition DEFAULTS_fontSizeRatio :: rat where
  "DEFAULTS_fontSizeRatio = 9 / 10"

definition CACHE_none :: string where
  "CACHE_none = ''no-cache''"

definition CACHE_longTerm :: string where
  "CACHE_longTerm = ''public, max-age=31536000, immutable''"

section \<open>Punycode decoder\<close>

definition base :: int where "base = 36"
definition tMin :: int where "tMin = 1"
definition tMax :: int where "tMax = 26"
definition skew :: int where "skew = 38"
definition damp :: int where "damp = 700"
definition initialBias :: int where "initialBias = 72"
definition initialN :: int where "initialN = 128"
definition delimiter :: nat where "delimiter = of_char CHR ''-''"
definition prefix_xn :: jsstring where "prefix_xn = js ''xn--''"

text \<open>The digit value of a code unit; \<open>None\<close> is the source's \<open>Infinity\<close>.\<close>

definition punycodeDigitToBasic :: "nat \<Rightarrow> int option" where
  "punycodeDigitToBasic codePoint =
     (if 0x30 \<le> codePoint \<and> codePoint \<le> 0x39 then Some (int codePoint - 0x30 + 26)
      else if 0x41 \<le> codePoint \<and> codePoint \<le> 0x5a then Some (int codePoint - 0x41)
      else if 0x61 \<le> codePoint \<and> codePoint \<le> 0x7a then Some (int codePoint - 0x61)
      else None)"

text \<open>A bias is an integer or, after a division by zero in \<open>punycodAdapt\<close>, \<open>-Infinity\<close>.\<close>

datatype number = Finite int | NegInfinity

text \<open>\<open>ToInt32\<close>, the conversion the operator \<open>>>\<close> applies to its left operand.\<close>

definition toInt32 :: "int \<Rightarrow> int" where
  "toInt32 x = (x + 2 ^ 31) mod 2 ^ 32 - 2 ^ 31"

text \<open>The \<open>while (delta > threshold)\<close> loop of \<open>punycodAdapt\<close>; the threshold is
  \<open>((base - tMin) * tMax) >> 1 = 455\<close>.\<close>

function adapt_loop :: "int \<Rightarrow> int \<Rightarrow> int \<times> int" where
  "adapt_loop delta k =
     (if delta > ((base - tMin) * tMax) div 2
      then adapt_loop (delta div (base - tMin)) (k + base)
      else (delta, k))"
  by pat_completeness auto
termination
  by (relation "measure (\<lambda>(delta, k). nat delta)") (auto simp: base_def tMin_def tMax_def)

definition punycodAdapt :: "int \<Rightarrow> int \<Rightarrow> bool \<Rightarrow> number" where
  "punycodAdapt delta numPoints firstTime =
     (let delta1 = (if firstTime then delta div damp else toInt32 delta div 2);
          delta2 = delta1 + delta1 div numPoints;
          (delta3, k) = adapt_loop delta2 0
      in if delta3 + skew = 0 then NegInfinity
         else Finite (k + ((base - tMin + 1) * delta3) div (delta3 + skew)))"

text \<open>The threshold \<open>t\<close> of one digit position.\<close>

fun threshold :: "int \<Rightarrow> number \<Rightarrow> int" where
  "threshold k (Finite bias) =
     (if k \<le> bias then tMin else if k \<ge> bias + tMax then tMax else k - bias)"
| "threshold k NegInfinity = tMax"

datatype error =
    NonAsciiBasic      \<comment> \<open>Error: non-ASCII character in basic portion\<close>
  | UnexpectedEnd      \<comment> \<open>Error: unexpected end of input\<close>
  | InvalidDigit       \<comment> \<open>Error: invalid digit\<close>
  | InvalidCodePoint   \<comment> \<open>RangeError raised by \<open>String.fromCodePoint\<close>\<close>
  | URIError           \<comment> \<open>URIError raised by \<open>decodeURIComponent\<close>\<close>

text \<open>The inner \<open>while (true)\<close> loop: one variable-length integer is read from the rest
  of the input and added to \<open>i\<close>; the result is the new \<open>i\<close> and the input left.\<close>

fun decode_integer :: "number \<Rightarrow> jsstring \<Rightarrow> int \<Rightarrow> int \<Rightarrow> int \<Rightarrow> error + (int \<times> jsstring)" where
  "decode_integer bias [] i w k = Inl UnexpectedEnd"
| "decode_integer bias (c # rest) i w k =
     (case punycodeDigitToBasic c of
        None \<Rightarrow> Inl InvalidDigit
      | Some digit \<Rightarrow>
          (let i' = i + digit * w; t = threshold k bias in
           if digit < t then Inr (i', rest)
           else decode_integer bias rest i' (w * (base - t)) (k + base)))"

lemma decode_integer_shorter:
  "decode_integer bias inp i w k = Inr (i', rest) \<Longrightarrow> length rest < length inp"
proof (induction inp arbitrary: i w k)
  case Nil
  then show ?case by simp
next
  case (Cons c cs)
  show ?case
  proof (cases "punycodeDigitToBasic c")
    case None
    with Cons.prems show ?thesis by simp
  next
    case (Some digit)
    show ?thesis
    proof (cases "digit < threshold k bias")
      case True
      with Some Cons.prems show ?thesis by (simp add: Let_def)
    next
      case False
      with Some Cons.prems have
        "decode_integer bias cs (i + digit * w) (w * (base - threshold k bias)) (k + base)
           = Inr (i', rest)"
        by (simp add: Let_def)
      from Cons.IH [OF this] show ?thesis by simp
    qed
  qed
qed

text \<open>The outer \<open>while (index < input.length)\<close> loop, on the input from \<open>index\<close> on.
  The output buffer is an array of strings, one per code point.\<close>

function decode_loop ::
  "jsstring \<Rightarrow> int \<Rightarrow> int \<Rightarrow> number \<Rightarrow> jsstring list \<Rightarrow> error + jsstring list" where
  "decode_loop inp i n bias output =
     (if inp = [] then Inr output
      else case decode_integer bias inp i 1 base of
        Inl e \<Rightarrow> Inl e
      | Inr (i', rest) \<Rightarrow>
          (let outputLength = int (length output) + 1;
               bias' = punycodAdapt (i' - i) outputLength (i = 0);
               n' = n + i' div outputLength;
               i'' = i' mod outputLength
           in case fromCodePoint n' of
                None \<Rightarrow> Inl InvalidCodePoint
              | Some s \<Rightarrow> decode_loop rest (i'' + 1) n' bias' (splice_in (nat i'') s output)))"
  by pat_completeness auto
termination
  by (relation "measure (\<lambda>(inp, i, n, bias, output). length inp)")
     (auto dest: decode_integer_shorter)

declare decode_loop.simps [simp del]

text \<open>The \<open>for\<close> loop copying the basic code points.\<close>

fun copy_basic :: "jsstring \<Rightarrow> error + jsstring list" where
  "copy_basic [] = Inr []"
| "copy_basic (c # cs) =
     (if c \<ge> 0x80 then Inl NonAsciiBasic
      else case copy_basic cs of Inl e \<Rightarrow> Inl e | Inr out \<Rightarrow> Inr ([c] # out))"

definition punycodeDecode :: "jsstring \<Rightarrow> error + jsstring" where
  "punycodeDecode inp =
     (let b = lastIndexOf inp delimiter;
          basic = (if b < 0 then 0 else nat b)
      in case copy_basic (take basic inp) of
           Inl e \<Rightarrow> Inl e
         | Inr output \<Rightarrow>
             (let index = (if basic > 0 then basic + 1 else 0)
              in case decode_loop (drop index inp) 0 initialN (Finite initialBias) output of
                   Inl e \<Rightarrow> Inl e
                 | Inr out \<Rightarrow> Inr (concat out)))"




text \<open>\<open>String.prototype.toLowerCase\<close>, on the ASCII letters. The Unicode case mappings
  of the other characters are left out: none of them yields an ASCII \<open>x\<close>, \<open>n\<close> or
  \<open>-\<close>, so they do not change the test of \<open>isPunycode\<close>.\<close>

definition toLowerCase :: "jsstring \<Rightarrow> jsstring" where
  "toLowerCase str = map (\<lambda>c. if 0x41 \<le> c \<and> c \<le> 0x5a then c + 0x20 else c) str"

definition isPunycode :: "jsstring \<Rightarrow> bool" where
  "isPunycode str = startsWith (toLowerCase str) prefix_xn"

text \<open>The \<open>try\<close>/\<open>catch\<close> catches every error of the decoder.\<close>

definition decodePunycodeIfNeeded :: "jsstring \<Rightarrow> jsstring" where
  "decodePunycodeIfNeeded str =
     (if \<not> isPunycode str then str
      else let encoded = drop (length prefix_xn) str
           in case punycodeDecode encoded of
                Inr decoded \<Rightarrow> decoded
              | Inl e \<Rightarrow> str)"

section \<open>Text utilities\<close>

text \<open>The spread \<open>[...str]\<close>: the string iterator yields one string per code point, a
  surrogate pair together, a lone surrogate alone.\<close>

definition isHighSurrogate :: "nat \<Rightarrow> bool" where
  "isHighSurrogate c = (0xD800 \<le> c \<and> c \<le> 0xDBFF)"

definition isLowSurrogate :: "nat \<Rightarrow> bool" where
  "isLowSurrogate c = (0xDC00 \<le> c \<and> c \<le> 0xDFFF)"

fun spread :: "jsstring \<Rightarrow> jsstring list" where
  "spread [] = []"
| "spread [c] = [[c]]"
| "spread (c # d # rest) =
     (if isHighSurrogate c \<and> isLowSurrogate d then [c, d] # spread rest
      else [c] # spread (d # rest))"

text \<open>
  \<open>Intl.Segmenter\<close> is a facility of the host, not of the repository, and the source
  asks at run time whether it is there. The host is a parameter: \<open>None\<close> when there is
  no \<open>Intl.Segmenter\<close>, otherwise its grapheme boundary rules. Unicode's rules (UAX 29)
  decide whether a cluster ends between two code points from the code points before the
  place and the one code point after it, so a rule is a predicate on these two; which
  places it breaks at is left open. A cluster is kept as the list of its code points.
\<close>

type_synonym boundary_rule = "jsstring list \<Rightarrow> jsstring \<Rightarrow> bool"

type_synonym intl = "boundary_rule option"

fun clusters :: "boundary_rule \<Rightarrow> jsstring list \<Rightarrow> jsstring list \<Rightarrow> jsstring list
                   \<Rightarrow> jsstring list list" where
  "clusters gb left cur [] = [cur]"
| "clusters gb left cur (c # cs) =
     (if gb left c then cur # clusters gb (left @ [c]) [c] cs
      else clusters gb (left @ [c]) (cur @ [c]) cs)"

text \<open>\<open>[...segmenter.segment(str)].map((s) => s.segment)\<close>: the segments of a string.\<close>

definition segment :: "boundary_rule \<Rightarrow> jsstring \<Rightarrow> jsstring list" where
  "segment gb str =
     (case spread str of
        [] \<Rightarrow> []
      | c # cs \<Rightarrow> map concat (clusters gb [c] [c] cs))"

text \<open>\<open>Array.prototype.slice(0, end)\<close>: a negative \<open>end\<close> counts from the end of the
  array.\<close>

definition slice0 :: "'a list \<Rightarrow> int \<Rightarrow> 'a list" where
  "slice0 xs e =
     (let len = int (length xs);
          final = (if e < 0 then max (len + e) 0 else min e len)
      in take (nat final) xs)"

definition getFirstGraphemes :: "intl \<Rightarrow> jsstring \<Rightarrow> int \<Rightarrow> jsstring" where
  "getFirstGraphemes intl str count =
     (case intl of
        Some gb \<Rightarrow> (let segments = segment gb str in concat (slice0 segments count))
      | None \<Rightarrow> (let chars = spread str in concat (slice0 chars count)))"

definition countGraphemes :: "intl \<Rightarrow> jsstring \<Rightarrow> int" where
  "countGraphemes intl str =
     (case intl of
        Some gb \<Rightarrow> int (length (segment gb str))
      | None \<Rightarrow> int (length (spread str)))"

text \<open>\<open>escapeXml\<close>: the regular expression matches each of the five characters
  \<open>& < > " '\<close>, and each match is replaced by its entry of \<open>xmlEntities\<close>.\<close>

definition xmlEntities :: "(nat \<times> jsstring) list" where
  "xmlEntities =
     [(0x26, js ''&amp;''), (0x3C, js ''&lt;''), (0x3E, js ''&gt;''),
      (0x22, js ''&quot;''), (0x27, js ''&apos;'')]"

definition escapeXml :: "jsstring \<Rightarrow> jsstring" where
  "escapeXml str =
     concat (map (\<lambda>c. if c \<in> {0x26, 0x3C, 0x3E, 0x22, 0x27}
                       then (case map_of xmlEntities c of Some e \<Rightarrow> e | None \<Rightarrow> js ''undefined'')
                       else [c]) str)"

text \<open>What the escaping is for: a string is free of markup when none of
  \<open>< > " '\<close> occurs in it and every \<open>&\<close> in it starts one of the five entities.\<close>

fun markupFree :: "jsstring \<Rightarrow> bool" where
  "markupFree [] = True"
| "markupFree (c # cs) =
     (if c \<in> {0x3C, 0x3E, 0x22, 0x27} then False
      else if c = 0x26 then
        (\<exists>e \<in> set (map snd xmlEntities). take (length e) (c # cs) = e) \<and> markupFree cs
      else markupFree cs)"

section \<open>Color utilities\<close>

text \<open>\<open>Math.random\<close> is the only source of nondeterminism. The random source is a
  parameter: the sequence of the values \<open>Math.random()\<close> returns, with the number of
  values drawn so far passed along. \<open>hex[d]\<close> is \<open>undefined\<close> outside the string.\<close>

type_synonym random = "nat \<Rightarrow> rat"

fun color_digits :: "random \<Rightarrow> nat \<Rightarrow> nat \<Rightarrow> jsstring" where
  "color_digits rnd drawn 0 = []"
| "color_digits rnd drawn (Suc m) =
     (let d = \<lfloor>rnd drawn * 16\<rfloor>;
          hex = js ''0123456789abcdef''
      in (if 0 \<le> d \<and> d < 16 then [hex ! nat d] else js ''undefined'')
         @ color_digits rnd (Suc drawn) m)"

definition getRandomColor :: "random \<Rightarrow> nat \<Rightarrow> jsstring \<times> nat" where
  "getRandomColor rnd drawn = (js ''#'' @ color_digits rnd drawn 6, drawn + 6)"

definition getGradientColors :: "random \<Rightarrow> nat \<Rightarrow> (jsstring \<times> jsstring) \<times> nat" where
  "getGradientColors rnd drawn =
     (let (color1, drawn1) = getRandomColor rnd drawn;
          (color2, drawn2) = getRandomColor rnd drawn1
      in ((color1, color2), drawn2))"

section \<open>SVG generation\<close>

text \<open>The values a template literal of the source substitutes: a string, a number, or a
  member that an object literal inherits from \<open>Object.prototype\<close> (a function or an
  object, named by its key). The text that \<open>ToString\<close> gives a number or such a member
  is not modelled.\<close>

datatype jsvalue = JString jsstring | JNumber rat | JInherited jsstring

definition styles :: "(jsstring \<times> jsstring) list" where
  \<open>styles =
     [(js ''circle'', js ''style="border-radius: 50%;"''),
      (js ''rounded'', js ''style="border-radius: 10px;"'')]\<close>

text \<open>The properties of \<open>Object.prototype\<close>, which \<open>styles\<close>, an object literal,
  inherits.\<close>

definition Object_prototype :: "jsstring list" where
  "Object_prototype =
     [js ''constructor'', js ''__defineGetter__'', js ''__defineSetter__'',
      js ''hasOwnProperty'', js ''__lookupGetter__'', js ''__lookupSetter__'',
      js ''isPrototypeOf'', js ''propertyIsEnumerable'', js ''toString'', js ''valueOf'',
      js ''__proto__'', js ''toLocaleString'']"

text \<open>\<open>styles[shape] || ""\<close>. The key is \<open>ToString(shape)\<close>, \<open>"null"\<close> for an absent
  parameter; the lookup goes through the own properties, then through the prototype; a
  non-empty string, a function and an object are truthy.\<close>

definition getShapeStyle :: "jsstring option \<Rightarrow> jsvalue" where
  "getShapeStyle shape =
     (let key = (case shape of None \<Rightarrow> js ''null'' | Some s \<Rightarrow> s)
      in case map_of styles key of
           Some v \<Rightarrow> (if v = [] then JString [] else JString v)
         | None \<Rightarrow> (if key \<in> set Object_prototype then JInherited key else JString []))"

text \<open>The font size is a quotient of doubles in the source and an exact rational here.\<close>

definition calculateFontSize :: "intl \<Rightarrow> int \<Rightarrow> jsstring \<Rightarrow> rat" where
  "calculateFontSize intl avatarSize txt =
     (let graphemeCount = countGraphemes intl txt
      in (of_int avatarSize * DEFAULTS_fontSizeRatio) / of_int (max graphemeCount 1))"

record svg_options =
  size' :: int
  text' :: jsstring
  shapeStyle :: jsvalue
  color1 :: jsstring
  color2 :: jsstring

text \<open>The template literal, as the sequence of its literal chunks and substitutions.\<close>

datatype piece = Lit string | Subst jsvalue

definition generateSvgAvatar :: "intl \<Rightarrow> svg_options \<Rightarrow> piece list" where
  \<open>generateSvgAvatar intl opts =
     (let fontSize = calculateFontSize intl (size' opts) (text' opts);
          safeText = escapeXml (text' opts)
      in [Lit ''<?xml version="1.0" standalone="no"?>\<newline><!DOCTYPE svg PUBLIC "-//W3C//DTD SVG 1.1//EN" "http://www.w3.org/Graphics/SVG/1.1/DTD/svg11.dtd">\<newline><svg '',
          Subst (shapeStyle opts),
          Lit '' width="'', Subst (JNumber (of_int (size' opts))),
          Lit ''" height="'', Subst (JNumber (of_int (size' opts))),
          Lit ''" viewBox="0 0 '', Subst (JNumber (of_int (size' opts))),
          Lit '' '', Subst (JNumber (of_int (size' opts))),
          Lit ''" version="1.1" xmlns="http://www.w3.org/2000/svg">\<newline>  <g>\<newline>    <defs>\<newline>      <linearGradient id="avatar" x1="0" y1="0" x2="1" y2="1">\<newline>        <stop offset="0%" stop-color="'',
          Subst (JString (color1 opts)),
          Lit ''"/>\<newline>        <stop offset="100%" stop-color="'',
          Subst (JString (color2 opts)),
          Lit ''"/>\<newline>      </linearGradient>\<newline>    </defs>\<newline>    <rect fill="url(#avatar)" x="0" y="0" width="'',
          Subst (JNumber (of_int (size' opts))),
          Lit ''" height="'', Subst (JNumber (of_int (size' opts))),
          Lit ''"/>\<newline>    <text x="50%" y="50%" alignment-baseline="central" dominant-baseline="central" text-anchor="middle" fill="#fff" font-family="sans-serif" font-size="'',
          Subst (JNumber fontSize),
          Lit ''">'',
          Subst (JString safeText),
          Lit ''</text>\<newline>  </g>\<newline></svg>''])\<close>

section \<open>Request handling\<close>

subsection \<open>Built-in functions of the language\<close>

text \<open>\<open>decodeURIComponent\<close> (ECMAScript, Decode): a \<open>%\<close> needs two hexadecimal digits
  after it; an octet from \<open>0x80\<close> on starts a UTF-8 sequence of two to four escaped
  octets, which has to be the encoding of a code point; everything else raises a
  URIError.\<close>

definition hexDigit :: "nat \<Rightarrow> nat option" where
  "hexDigit c =
     (if 0x30 \<le> c \<and> c \<le> 0x39 then Some (c - 0x30)
      else if 0x41 \<le> c \<and> c \<le> 0x46 then Some (c - 0x41 + 10)
      else if 0x61 \<le> c \<and> c \<le> 0x66 then Some (c - 0x61 + 10)
      else None)"

fun parseHexOctet :: "jsstring \<Rightarrow> (nat \<times> jsstring) option" where
  "parseHexOctet (p # h # l # rest) =
     (if p = 0x25 then
        (case (hexDigit h, hexDigit l) of
           (Some a, Some b) \<Rightarrow> Some (16 * a + b, rest)
         | _ \<Rightarrow> None)
      else None)"
| "parseHexOctet _ = None"

fun readOctets :: "nat \<Rightarrow> jsstring \<Rightarrow> (nat list \<times> jsstring) option" where
  "readOctets 0 s = Some ([], s)"
| "readOctets (Suc j) s =
     (case parseHexOctet s of
        None \<Rightarrow> None
      | Some (b, rest) \<Rightarrow>
          (case readOctets j rest of
             None \<Rightarrow> None
           | Some (bs, rest') \<Rightarrow> Some (b # bs, rest')))"

text \<open>The number of leading 1 bits of an octet, as far as the decoder distinguishes.\<close>

definition leadingOnes :: "nat \<Rightarrow> nat" where
  "leadingOnes b =
     (if b < 0x80 then 0 else if b < 0xC0 then 1 else if b < 0xE0 then 2
      else if b < 0xF0 then 3 else if b < 0xF8 then 4 else 5)"

definition isContinuation :: "nat \<Rightarrow> bool" where
  "isContinuation b = (0x80 \<le> b \<and> b \<le> 0xBF)"

text \<open>The code point of a well-formed UTF-8 sequence of two to four octets: no overlong
  form, no surrogate, nothing above \<open>0x10FFFF\<close>.\<close>

fun utf8CodePoint :: "nat list \<Rightarrow> int option" where
  "utf8CodePoint [b0, b1] =
     (let v = (int b0 - 0xC0) * 64 + (int b1 - 0x80)
      in if isContinuation b1 \<and> 0x80 \<le> v then Some v else None)"
| "utf8CodePoint [b0, b1, b2] =
     (let v = (int b0 - 0xE0) * 4096 + (int b1 - 0x80) * 64 + (int b2 - 0x80)
      in if isContinuation b1 \<and> isContinuation b2 \<and> 0x800 \<le> v
            \<and> \<not> (0xD800 \<le> v \<and> v \<le> 0xDFFF) then Some v else None)"
| "utf8CodePoint [b0, b1, b2, b3] =
     (let v = (int b0 - 0xF0) * 262144 + (int b1 - 0x80) * 4096 + (int b2 - 0x80) * 64
              + (int b3 - 0x80)
      in if isContinuation b1 \<and> isContinuation b2 \<and> isContinuation b3
            \<and> 0x10000 \<le> v \<and> v \<le> 0x10FFFF then Some v else None)"
| "utf8CodePoint _ = None"

lemma parseHexOctet_shorter:
  "parseHexOctet s = Some (b, rest) \<Longrightarrow> length rest < length s"
  by (cases s rule: parseHexOctet.cases) (auto split: if_splits option.splits)

lemma readOctets_shorter:
  "readOctets j s = Some (bs, rest) \<Longrightarrow> length rest \<le> length s"
proof (induction j arbitrary: s bs rest)
  case 0
  then show ?case by simp
next
  case (Suc j)
  from Suc.prems obtain b r bs' where
    p: "parseHexOctet s = Some (b, r)" and q: "readOctets j r = Some (bs', rest)"
    by (auto split: option.splits)
  from parseHexOctet_shorter [OF p] Suc.IH [OF q] show ?case by simp
qed

function decodeURIComponent :: "jsstring \<Rightarrow> error + jsstring" where
  "decodeURIComponent [] = Inr []"
| "decodeURIComponent (c # cs) =
     (if c \<noteq> 0x25 then
        (case decodeURIComponent cs of Inl e \<Rightarrow> Inl e | Inr r \<Rightarrow> Inr (c # r))
      else case parseHexOctet (c # cs) of
        None \<Rightarrow> Inl URIError
      | Some (b, rest) \<Rightarrow>
          (let n = leadingOnes b in
           if n = 0 then
             (case decodeURIComponent rest of Inl e \<Rightarrow> Inl e | Inr r \<Rightarrow> Inr (b # r))
           else if n = 1 \<or> n > 4 then Inl URIError
           else case readOctets (n - 1) rest of
             None \<Rightarrow> Inl URIError
           | Some (bs, rest') \<Rightarrow>
               (case utf8CodePoint (b # bs) of
                  None \<Rightarrow> Inl URIError
                | Some v \<Rightarrow>
                    (case fromCodePoint v of
                       None \<Rightarrow> Inl URIError
                     | Some u \<Rightarrow>
                         (case decodeURIComponent rest' of
                            Inl e \<Rightarrow> Inl e
                          | Inr r \<Rightarrow> Inr (u @ r))))))"
  by pat_completeness auto
termination
proof (relation "measure length", goal_cases)
  case 1
  show ?case by simp
next
  case (2 c cs)
  show ?case by simp
next
  case (3 c cs x2 b rest n)
  from parseHexOctet_shorter [of "c # cs" b rest] 3 show ?case by simp
next
  case (4 c cs x2 b rest n x2a bs rest' v u)
  from parseHexOctet_shorter [of "c # cs" b rest] readOctets_shorter [of "n - 1" rest bs rest'] 4
  show ?case by simp
qed

text \<open>\<open>parseInt(string, 10)\<close>: leading white space is skipped, a sign is read, then the
  longest run of decimal digits; \<open>NaN\<close> (\<open>None\<close>) when that run is empty. The value is
  the exact integer (the source rounds it to a double, which changes neither its sign nor
  its order against 1 and 1000).\<close>

definition isWhiteSpace :: "nat \<Rightarrow> bool" where
  "isWhiteSpace c =
     (c \<in> {0x9, 0xA, 0xB, 0xC, 0xD, 0x20, 0xA0, 0x1680, 0x2028, 0x2029, 0x202F, 0x205F,
            0x3000, 0xFEFF}
      \<or> (0x2000 \<le> c \<and> c \<le> 0x200A))"

definition isDecimalDigit :: "nat \<Rightarrow> bool" where
  "isDecimalDigit c = (0x30 \<le> c \<and> c \<le> 0x39)"

definition digitsValue :: "jsstring \<Rightarrow> int" where
  "digitsValue z = foldl (\<lambda>a c. 10 * a + (int c - 0x30)) 0 z"

definition parseInt :: "jsstring \<Rightarrow> int option" where
  "parseInt str =
     (let s = dropWhile isWhiteSpace str;
          sign = (if s \<noteq> [] \<and> hd s = 0x2D then -1 else 1);
          s' = (if s \<noteq> [] \<and> (hd s = 0x2B \<or> hd s = 0x2D) then tl s else s);
          z = takeWhile isDecimalDigit s'
      in if z = [] then None else Some (sign * digitsValue z))"

subsection \<open>The handler\<close>

text \<open>The parsed request URL: its path and its query parameters in order.
  \<open>searchParams.get\<close> returns the first value of a name, \<open>null\<close> when there is none.\<close>

record url =
  pathname :: jsstring
  searchParams :: "(jsstring \<times> jsstring) list"

definition searchParams_get :: "url \<Rightarrow> jsstring \<Rightarrow> jsstring option" where
  "searchParams_get u name = map_of (searchParams u) name"

record avatar_options =
  opt_size :: int
  opt_text :: jsstring
  opt_shape :: "jsstring option"
  isRootPath :: bool

text \<open>\<open>parseInt(null, 10)\<close> parses the string \<open>"null"\<close>; \<open>x || DEFAULTS.size\<close> takes the
  default for \<open>NaN\<close> and for zero, \<open>avatarText || DEFAULTS.text\<close> for the empty string.
  An error of \<open>decodeURIComponent\<close> is not caught.\<close>

definition parseAvatarOptions :: "intl \<Rightarrow> url \<Rightarrow> error + avatar_options" where
  "parseAvatarOptions intl u =
     (let path = pathname u;
          avatarText =
            (if startsWith path BASEPATH then
               (let rawText = drop (length BASEPATH) path
                in case decodeURIComponent rawText of
                     Inl e \<Rightarrow> Inl e
                   | Inr decodedText \<Rightarrow>
                       (let unicodeText = decodePunycodeIfNeeded decodedText
                        in Inr (getFirstGraphemes intl unicodeText DEFAULTS_maxTextLength)))
             else Inr DEFAULTS_text)
      in case avatarText of
           Inl e \<Rightarrow> Inl e
         | Inr avatarText \<Rightarrow>
             (let parsed = parseInt (case searchParams_get u (js ''s'') of
                                       None \<Rightarrow> js ''null'' | Some v \<Rightarrow> v);
                  size = (case parsed of
                            None \<Rightarrow> DEFAULTS_size
                          | Some v \<Rightarrow> if v = 0 then DEFAULTS_size else v);
                  shape = searchParams_get u (js ''shape'')
              in Inr \<lparr> opt_size = max 1 (min size 1000),
                       opt_text = (if avatarText = [] then DEFAULTS_text else avatarText),
                       opt_shape = shape,
                       isRootPath = (path = js ''/'') \<rparr>))"

record response =
  body :: "piece list"
  headers :: "(string \<times> string) list"

definition createSvgResponse :: "piece list \<Rightarrow> bool \<Rightarrow> response" where
  "createSvgResponse svgContent shouldCache =
     \<lparr> body = svgContent,
       headers = [(''Content-Type'', ''image/svg+xml; charset=utf-8''),
                  (''Cache-Control'', if shouldCache then CACHE_longTerm else CACHE_none)] \<rparr>"

text \<open>\<open>handleRequest\<close> is asynchronous: an error raised in it rejects the promise it
  returns (\<open>Inl\<close>), and no response is made.\<close>

definition handleRequest :: "intl \<Rightarrow> random \<Rightarrow> url \<Rightarrow> error + response" where
  "handleRequest intl rnd u =
     (case parseAvatarOptions intl u of
        Inl e \<Rightarrow> Inl e
      | Inr options \<Rightarrow>
          (let ((c1, c2), drawn) = getGradientColors rnd 0;
               svgAvatar = generateSvgAvatar intl
                 \<lparr> size' = opt_size options, text' = opt_text options,
                   shapeStyle = getShapeStyle (opt_shape options),
                   color1 = c1, color2 = c2 \<rparr>;
               shouldCache = \<not> isRootPath options
           in Inr (createSvgResponse svgAvatar shouldCache)))"

section \<open>Properties of the text utilities\<close>

lemma concat_spread: "concat (spread s) = s"
  by (induction s rule: spread.induct) auto

lemma spread_nonempty: "s \<noteq> [] \<Longrightarrow> spread s \<noteq> []"
  by (cases s rule: spread.cases) auto

lemma hd_concat_take_spread:
  "concat (take k (spread s)) = y # ys \<Longrightarrow> \<exists>t. s = y # t"
proof -
  assume a: "concat (take k (spread s)) = y # ys"
  have "s = concat (take k (spread s)) @ concat (drop k (spread s))"
    by (metis append_take_drop_id concat_append concat_spread)
  with a show ?thesis by (metis append_Cons)
qed

lemma spread_take: "spread (concat (take k (spread s))) = take k (spread s)"
proof (induction s arbitrary: k rule: spread.induct)
  case 1
  show ?case by simp
next
  case (2 c)
  show ?case by (cases k) simp_all
next
  case (3 c d rest)
  show ?case
  proof (cases k)
    case 0
    then show ?thesis by simp
  next
    case (Suc k')
    show ?thesis
    proof (cases "isHighSurrogate c \<and> isLowSurrogate d")
      case True
      with Suc "3.IH"(1) [of k'] show ?thesis by simp
    next
      case False
      let ?Y = "concat (take k' (spread (d # rest)))"
      have ih: "spread ?Y = take k' (spread (d # rest))"
        using "3.IH"(2) [OF False] .
      have "spread (c # ?Y) = [c] # spread ?Y"
      proof (cases ?Y)
        case Nil
        show ?thesis by (simp only: Nil spread.simps)
      next
        case (Cons y ys)
        from hd_concat_take_spread [OF Cons] have "y = d" by simp
        with Cons False show ?thesis by simp
      qed
      with False Suc ih show ?thesis by auto
    qed
  qed
qed

lemma concat_map_concat: "concat (map concat xss) = concat (concat xss)"
  by (induction xss) simp_all

lemma concat_clusters:
  "concat (clusters gb left cur cs) = cur @ cs"
  by (induction cs arbitrary: left cur) auto

lemma clusters_nonempty: "clusters gb left cur cs \<noteq> []"
  by (induction cs arbitrary: left cur) auto

lemma concat_segment: "concat (segment gb s) = s"
proof (cases "spread s")
  case Nil
  then show ?thesis using spread_nonempty [of s] by (auto simp: segment_def)
next
  case (Cons c cs)
  have "concat (segment gb s) = concat (concat (clusters gb [c] [c] cs))"
    by (simp add: segment_def Cons concat_map_concat)
  also have "\<dots> = concat (spread s)"
    by (simp add: concat_clusters Cons)
  finally show ?thesis by (simp add: concat_spread)
qed

lemma clusters_take:
  "\<exists>m. concat (take (Suc k) (clusters gb left cur cs)) = cur @ take m cs
       \<and> clusters gb left cur (take m cs) = take (Suc k) (clusters gb left cur cs)"
proof (induction cs arbitrary: left cur k)
  case Nil
  show ?case by simp
next
  case (Cons c cs)
  show ?case
  proof (cases "gb left c")
    case True
    show ?thesis
    proof (cases k)
      case 0
      have "concat (take (Suc 0) (clusters gb left cur (c # cs))) = cur @ take 0 (c # cs)
          \<and> clusters gb left cur (take 0 (c # cs)) = take (Suc 0) (clusters gb left cur (c # cs))"
        using True by simp
      with 0 show ?thesis by blast
    next
      case (Suc k')
      from Cons.IH [of k' "left @ [c]" "[c]"] obtain m where
        m: "concat (take (Suc k') (clusters gb (left @ [c]) [c] cs)) = [c] @ take m cs"
           "clusters gb (left @ [c]) [c] (take m cs) = take (Suc k') (clusters gb (left @ [c]) [c] cs)"
        by blast
      have "concat (take (Suc k) (clusters gb left cur (c # cs))) = cur @ take (Suc m) (c # cs)
          \<and> clusters gb left cur (take (Suc m) (c # cs)) = take (Suc k) (clusters gb left cur (c # cs))"
        using True Suc m by simp
      then show ?thesis by blast
    qed
  next
    case False
    from Cons.IH [of k "left @ [c]" "cur @ [c]"] obtain m where
      m: "concat (take (Suc k) (clusters gb (left @ [c]) (cur @ [c]) cs)) = (cur @ [c]) @ take m cs"
         "clusters gb (left @ [c]) (cur @ [c]) (take m cs)
            = take (Suc k) (clusters gb (left @ [c]) (cur @ [c]) cs)"
      by blast
    have "concat (take (Suc k) (clusters gb left cur (c # cs))) = cur @ take (Suc m) (c # cs)
        \<and> clusters gb left cur (take (Suc m) (c # cs)) = take (Suc k) (clusters gb left cur (c # cs))"
      using False m by simp
    then show ?thesis by blast
  qed
qed

lemma segment_take: "segment gb (concat (take k (segment gb s))) = take k (segment gb s)"
proof (cases k)
  case 0
  then show ?thesis by (simp add: segment_def)
next
  case (Suc k')
  show ?thesis
  proof (cases "spread s")
    case Nil
    then show ?thesis by (simp add: segment_def)
  next
    case (Cons c cs)
    from clusters_take [of k' gb "[c]" "[c]" cs] obtain m where
      m: "concat (take (Suc k') (clusters gb [c] [c] cs)) = [c] @ take m cs"
         "clusters gb [c] [c] (take m cs) = take (Suc k') (clusters gb [c] [c] cs)"
      by blast
    have "concat (take k (segment gb s)) = concat (concat (take (Suc k') (clusters gb [c] [c] cs)))"
      by (simp add: segment_def Cons Suc take_map concat_map_concat)
    also have "\<dots> = concat (take (Suc m) (spread s))"
      using m(1) Cons by simp
    finally have e: "concat (take k (segment gb s)) = concat (take (Suc m) (spread s))" .
    have "spread (concat (take k (segment gb s))) = c # take m cs"
      unfolding e spread_take using Cons by simp
    then have "segment gb (concat (take k (segment gb s))) = map concat (clusters gb [c] [c] (take m cs))"
      by (simp add: segment_def)
    also have "\<dots> = take k (segment gb s)"
      using m(2) by (simp add: segment_def Cons Suc take_map)
    finally show ?thesis .
  qed
qed

lemma slice0_take: "0 \<le> n \<Longrightarrow> slice0 xs n = take (nat n) xs"
  by (auto simp: slice0_def Let_def min_def)

text \<open>
  Claim C4. For every string \<open>s\<close> and every count \<open>n \<ge> 0\<close>, the string that
  \<open>getFirstGraphemes\<close> returns has at most \<open>n\<close> units as \<open>countGraphemes\<close> counts them,
  and no unit of \<open>s\<close> is split: the result is the concatenation of the first \<open>n\<close> units
  of \<open>s\<close>, and its own units are exactly these. This holds without \<open>Intl.Segmenter\<close>
  (units are code points) and with it, for every boundary rule.
\<close>
theorem getFirstGraphemes_at_most:
  assumes "0 \<le> n"
  shows "countGraphemes intl (getFirstGraphemes intl s n) \<le> n
         \<and> (case intl of
               Some gb \<Rightarrow> getFirstGraphemes intl s n = concat (take (nat n) (segment gb s))
                           \<and> segment gb (getFirstGraphemes intl s n) = take (nat n) (segment gb s)
             | None \<Rightarrow> getFirstGraphemes intl s n = concat (take (nat n) (spread s))
                           \<and> spread (getFirstGraphemes intl s n) = take (nat n) (spread s))"
proof (cases intl)
  case None
  with assms show ?thesis
    by (simp add: getFirstGraphemes_def countGraphemes_def slice0_take spread_take)
next
  case (Some gb)
  with assms show ?thesis
    by (simp add: getFirstGraphemes_def countGraphemes_def slice0_take segment_take)
qed

theorem getFirstGraphemes_at_most_witness:
  "countGraphemes None (getFirstGraphemes None [0xD83D, 0xDE00, 0x61, 0x62] 2) \<le> 2
   \<and> getFirstGraphemes None [0xD83D, 0xDE00, 0x61, 0x62] 2 = [0xD83D, 0xDE00, 0x61]
   \<and> countGraphemes (Some (\<lambda>l c. c \<noteq> [0x301])) (getFirstGraphemes (Some (\<lambda>l c. c \<noteq> [0x301])) [0x65, 0x301, 0x61, 0x62] 2) \<le> 2
   \<and> getFirstGraphemes (Some (\<lambda>l c. c \<noteq> [0x301])) [0x65, 0x301, 0x61, 0x62] 2 = [0x65, 0x301, 0x61]"
  using getFirstGraphemes_at_most [of 2 None "[0xD83D, 0xDE00, 0x61, 0x62]"]
        getFirstGraphemes_at_most [of 2 "Some (\<lambda>l c. c \<noteq> [0x301])" "[0x65, 0x301, 0x61, 0x62]"]
  by (simp add: segment_def countGraphemes_def isHighSurrogate_def isLowSurrogate_def)

text \<open>
  Claim C10. For every string \<open>s\<close> and every count \<open>n \<ge> 0\<close>, \<open>getFirstGraphemes s n\<close>
  is a prefix of \<open>s\<close>, and it is \<open>s\<close> itself when \<open>n\<close> is at least \<open>countGraphemes s\<close>.
\<close>
theorem getFirstGraphemes_prefix:
  assumes "0 \<le> n"
  shows "(\<exists>rest. s = getFirstGraphemes intl s n @ rest)
         \<and> (countGraphemes intl s \<le> n \<longrightarrow> getFirstGraphemes intl s n = s)"
proof (cases intl)
  case None
  have "s = concat (take (nat n) (spread s)) @ concat (drop (nat n) (spread s))"
    by (metis append_take_drop_id concat_append concat_spread)
  moreover have "int (length (spread s)) \<le> n \<Longrightarrow> concat (take (nat n) (spread s)) = s"
    by (simp add: concat_spread)
  ultimately show ?thesis using None assms
    by (auto simp: getFirstGraphemes_def countGraphemes_def slice0_take)
next
  case (Some gb)
  have "s = concat (take (nat n) (segment gb s)) @ concat (drop (nat n) (segment gb s))"
    by (metis append_take_drop_id concat_append concat_segment)
  moreover have "int (length (segment gb s)) \<le> n \<Longrightarrow> concat (take (nat n) (segment gb s)) = s"
    by (simp add: concat_segment)
  ultimately show ?thesis using Some assms
    by (auto simp: getFirstGraphemes_def countGraphemes_def slice0_take)
qed

theorem getFirstGraphemes_prefix_witness:
  "(\<exists>rest. js ''abc'' = getFirstGraphemes None (js ''abc'') 2 @ rest)
   \<and> countGraphemes None (js ''abc'') \<le> 3
   \<and> getFirstGraphemes None (js ''abc'') 3 = js ''abc''"
  using getFirstGraphemes_prefix [of 2 "js ''abc''" None]
        getFirstGraphemes_prefix [of 3 "js ''abc''" None]
  by (simp add: countGraphemes_def isHighSurrogate_def)

lemma take_Suc_eq_Cons:
  "take (Suc n) xs = y # ys \<longleftrightarrow> (\<exists>xs'. xs = y # xs' \<and> take n xs' = ys)"
  by (cases xs) auto




section \<open>Properties of the Punycode front end\<close>





section \<open>Properties of the shape, the size and the handler\<close>

text \<open>
  Claim C6 says that \<open>getShapeStyle\<close> returns the empty string for every value other
  than \<open>circle\<close> and \<open>rounded\<close>. For the value \<open>constructor\<close> the lookup
  \<open>styles[shape]\<close> finds the member that the object literal inherits from
  \<open>Object.prototype\<close>, which is truthy, and \<open>getShapeStyle\<close> returns it: not the empty
  string, and not a string.
\<close>
theorem getShapeStyle_constructor:
  "getShapeStyle (Some (js ''constructor'')) = JInherited (js ''constructor'')
   \<and> getShapeStyle (Some (js ''constructor'')) \<noteq> JString []"
  by (simp add: getShapeStyle_def styles_def Object_prototype_def)

lemma getShapeStyle_recognized:
  \<open>getShapeStyle (Some (js ''circle'')) = JString (js ''style="border-radius: 50%;"'')
   \<and> getShapeStyle (Some (js ''rounded'')) = JString (js ''style="border-radius: 10px;"'')
   \<and> getShapeStyle None = JString []\<close>
  by (simp add: getShapeStyle_def styles_def Object_prototype_def)

lemma getShapeStyle_other:
  "shape \<noteq> js ''circle'' \<Longrightarrow> shape \<noteq> js ''rounded'' \<Longrightarrow> shape \<notin> set Object_prototype
   \<Longrightarrow> getShapeStyle (Some shape) = JString []"
  by (simp add: getShapeStyle_def styles_def)

text \<open>
  Claim C7 says that \<open>handleRequest\<close> returns a response for every request. For the path
  \<open>/avatar/%\<close> the call of \<open>decodeURIComponent\<close> raises a URIError, nothing catches
  it, and \<open>handleRequest\<close> ends with this error, whatever the host and the random source.
\<close>
theorem handleRequest_URIError:
  "handleRequest intl rnd \<lparr> pathname = js ''/avatar/%'', searchParams = [] \<rparr> = Inl URIError"
  by (simp add: handleRequest_def parseAvatarOptions_def startsWith_def BASEPATH_def)

text \<open>
  Claim C5 says that an integer \<open>s\<close> below 1 gives the size 1. For \<open>s=0\<close> the
  expression \<open>parseInt(...) || DEFAULTS.size\<close> takes the default, and the parsed size is
  60.
\<close>
theorem parseAvatarOptions_size_zero:
  "\<exists>opts. parseAvatarOptions intl \<lparr> pathname = js ''/'', searchParams = [(js ''s'', js ''0'')] \<rparr>
            = Inr opts \<and> opt_size opts = 60"
  by (simp add: parseAvatarOptions_def startsWith_def BASEPATH_def searchParams_get_def
      parseInt_def isWhiteSpace_def isDecimalDigit_def digitsValue_def DEFAULTS_size_def)

lemma escapeXml_Nil: "escapeXml [] = []"
  by (simp add: escapeXml_def)

lemma escapeXml_Cons:
  "escapeXml (c # cs) =
     (if c = 0x26 then js ''&amp;'' else if c = 0x3C then js ''&lt;''
      else if c = 0x3E then js ''&gt;'' else if c = 0x22 then js ''&quot;''
      else if c = 0x27 then js ''&apos;'' else [c]) @ escapeXml cs"
  by (simp add: escapeXml_def xmlEntities_def)

lemma markupFree_escapeXml: "markupFree (escapeXml s)"
proof (induction s)
  case Nil
  show ?case by (simp add: escapeXml_Nil)
next
  case (Cons c cs)
  then show ?case
    by (simp add: escapeXml_Cons xmlEntities_def)
qed

section \<open>Properties of the rendering\<close>

text \<open>
  Claim C8. For every avatar text, the text node of the rendered SVG is the substitution
  of \<open>escapeXml text\<close>, between the end of the opening tag and \<open></text>\<close>; the escaped
  text is free of markup: none of \<open>< > " '\<close> occurs in it and every \<open>&\<close> in it starts
  an entity; and \<open>escapeXml\<close> replaces each of the five characters by its entity and
  keeps every other code unit.
\<close>
theorem generateSvgAvatar_text_escaped:
  \<open>(\<exists>pre. generateSvgAvatar intl opts =
            pre @ [Lit ''">'', Subst (JString (escapeXml (text' opts))),
                   Lit ''</text>\<newline>  </g>\<newline></svg>''])
   \<and> markupFree (escapeXml str)
   \<and> escapeXml [] = []
   \<and> escapeXml (c # cs) =
       (if c = 0x26 then js ''&amp;'' else if c = 0x3C then js ''&lt;''
        else if c = 0x3E then js ''&gt;'' else if c = 0x22 then js ''&quot;''
        else if c = 0x27 then js ''&apos;'' else [c]) @ escapeXml cs\<close>
proof -
  have "\<exists>pre. generateSvgAvatar intl opts =
            pre @ [Lit [CHR 0x22, CHR ''>''], Subst (JString (escapeXml (text' opts))),
                   Lit ''</text>\<newline>  </g>\<newline></svg>'']"
    unfolding generateSvgAvatar_def Let_def
    by (rule exI [where x = "take 20 (generateSvgAvatar intl opts)"])
       (simp add: generateSvgAvatar_def Let_def)
  then show ?thesis
    using markupFree_escapeXml [of str] escapeXml_Cons [of c cs] escapeXml_Nil by simp
qed

theorem generateSvgAvatar_text_escaped_witness:
  \<open>escapeXml (js ''<a&b>'' @ [0x22, 0x27]) = js ''&lt;a&amp;b&gt;&quot;&apos;''
   \<and> markupFree (escapeXml (js ''<a&b>'' @ [0x22, 0x27]))
   \<and> \<not> markupFree (js ''<a&b>'' @ [0x22, 0x27])\<close>
  using generateSvgAvatar_text_escaped [of None undefined "js ''<a&b>'' @ [0x22, 0x27]" 0 "[]"]
  by (simp add: escapeXml_def xmlEntities_def)




section \<open>Properties of the Punycode decoder\<close>











end
